theory Spec2Isabelle
  imports Main "HOL-Library.Sublist"
begin

section \<open>Session Context\<close>

text \<open>
  \<^verbatim>\<open>class AirlineAgentContext(BaseModel)\<close>: five optional strings, all \<open>None\<close> by default.
  The context is one shared mutable object; every operation that receives it is modelled
  by a function that takes the context and returns the context it leaves behind.
\<close>

record AirlineAgentContext =
  passenger_name :: "string option"
  confirmation_number :: "string option"
  seat_number :: "string option"
  flight_number :: "string option"
  account_number :: "string option"

definition AirlineAgentContext_default :: AirlineAgentContext where
  "AirlineAgentContext_default =
     \<lparr>passenger_name = None, confirmation_number = None, seat_number = None,
      flight_number = None, account_number = None\<rparr>"

text \<open>A failed \<^verbatim>\<open>assert\<close> raises \<^verbatim>\<open>AssertionError\<close> with the message of the statement.\<close>

datatype error = AssertionError string

section \<open>Python built-ins used by the program\<close>

text \<open>
  \<^verbatim>\<open>str(n)\<close> of an integer is its decimal numeral, with a minus sign for a negative
  one. An f-string field \<^verbatim>\<open>{n}\<close> renders an integer the same way.
\<close>

definition string_digits :: string where
  "string_digits = ''0123456789''"

definition string_ascii_uppercase :: string where
  "string_ascii_uppercase = ''ABCDEFGHIJKLMNOPQRSTUVWXYZ''"

definition string_ascii_lowercase :: string where
  "string_ascii_lowercase = ''abcdefghijklmnopqrstuvwxyz''"

fun str_nat :: "nat \<Rightarrow> string" where
  "str_nat n =
     (if n < 10 then [string_digits ! n]
      else str_nat (n div 10) @ [string_digits ! (n mod 10)])"

declare str_nat.simps [simp del]

definition str_int :: "int \<Rightarrow> string" where
  "str_int i = (if i < 0 then ''-'' @ str_nat (nat (- i)) else str_nat (nat i))"

definition isdigit :: "char \<Rightarrow> bool" where
  "isdigit c = (c \<in> set string_digits)"

text \<open>
  \<^verbatim>\<open>s.lower()\<close>: each upper-case letter is replaced by its lower-case one. Strings are
  modelled as lists of 8-bit characters, so the case mapping is the one of the ASCII
  letters; every other character stays as it is.
\<close>

definition lower_char :: "char \<Rightarrow> char" where
  "lower_char c =
     (case map_of (zip string_ascii_uppercase string_ascii_lowercase) c of
        None \<Rightarrow> c
      | Some d \<Rightarrow> d)"

definition lower :: "string \<Rightarrow> string" where
  "lower s = map lower_char s"

text \<open>
  \<^verbatim>\<open>x or d\<close> on an optional string: \<^verbatim>\<open>None\<close> and the empty string are both falsy, so
  both give the default.
\<close>

definition or_default :: "string option \<Rightarrow> string \<Rightarrow> string" where
  "or_default x d = (case x of None \<Rightarrow> d | Some s \<Rightarrow> if s = [] then d else s)"

text \<open>
  The module \<^verbatim>\<open>random\<close> keeps a hidden generator. It is modelled by the sequence of
  raw draws still to come; each call consumes the draws it needs and hands the rest on.
  \<^verbatim>\<open>random.randint(a, b)\<close> returns an integer \<open>N\<close> with \<open>a \<le> N \<le> b\<close>, obtained here
  by reducing one draw into that range; \<^verbatim>\<open>random.choices(population, k=k)\<close> returns
  \<open>k\<close> elements of the population, each picked by one draw reduced to an index.
  The program calls \<^verbatim>\<open>randint\<close> with \<open>a \<le> b\<close> and \<^verbatim>\<open>choices\<close> with a population of 36
  characters only, so the exceptions of an empty range and of an empty population have
  no branch here.
\<close>

type_synonym rng = "nat \<Rightarrow> nat"

definition draw :: "rng \<Rightarrow> nat \<times> rng" where
  "draw g = (g 0, \<lambda>i. g (Suc i))"

definition randint :: "int \<Rightarrow> int \<Rightarrow> rng \<Rightarrow> int \<times> rng" where
  "randint a b g = (let (r, g') = draw g in (a + int (r mod nat (b - a + 1)), g'))"

fun choices :: "'a list \<Rightarrow> nat \<Rightarrow> rng \<Rightarrow> 'a list \<times> rng" where
  "choices population 0 g = ([], g)"
| "choices population (Suc k) g =
     (let (r, g1) = draw g;
          (xs, g2) = choices population k g1
      in (population ! (r mod length population) # xs, g2))"

section \<open>Creating a context\<close>

text \<open>
  \<^verbatim>\<open>create_initial_context\<close> (main.py, lines 31-39): a default context whose account
  number is the decimal rendering of a random integer between 10000000 and 99999999.
\<close>

definition create_initial_context :: "rng \<Rightarrow> AirlineAgentContext \<times> rng" where
  "create_initial_context g =
     (let ctx = AirlineAgentContext_default;
          (n, g') = randint 10000000 99999999 g
      in (ctx\<lparr>account_number := Some (str_int n)\<rparr>, g'))"

section \<open>Tools\<close>

text \<open>
  A tool that receives the context returns its outcome (the raised error or the returned
  text) together with the context as it stands when the call ends. An exception does not
  undo the writes made before it was raised, so the context is returned in both cases.
\<close>

type_synonym tool_result = "(error + string) \<times> AirlineAgentContext"

text \<open>
  \<^verbatim>\<open>update_seat\<close> (main.py, lines 67-75): the two writes come first, the assertion on
  the flight number after them.
\<close>

definition update_seat :: "AirlineAgentContext \<Rightarrow> string \<Rightarrow> string \<Rightarrow> tool_result" where
  "update_seat context confirmation_number' new_seat =
     (let context1 = context\<lparr>confirmation_number := Some confirmation_number'\<rparr>;
          context2 = context1\<lparr>seat_number := Some new_seat\<rparr>
      in if flight_number context2 = None
         then (Inl (AssertionError ''Flight number is required''), context2)
         else (Inr (''Updated seat to '' @ new_seat @ '' for confirmation number ''
                      @ confirmation_number'), context2))"

text \<open>
  \<^verbatim>\<open>cancel_flight\<close> (main.py, lines 238-244): reads the flight number, asserts it, writes
  nothing.
\<close>

definition cancel_flight :: "AirlineAgentContext \<Rightarrow> tool_result" where
  "cancel_flight context =
     (case flight_number context of
        None \<Rightarrow> (Inl (AssertionError ''Flight number is required''), context)
      | Some fn \<Rightarrow> (Inr (''Flight '' @ fn @ '' successfully cancelled''), context))"

text \<open>
  \<^verbatim>\<open>display_seat_map\<close> (main.py, lines 102-107): receives the context and returns the
  marker for the user interface.
\<close>

definition display_seat_map :: "AirlineAgentContext \<Rightarrow> tool_result" where
  "display_seat_map context = (Inr ''DISPLAY_SEAT_MAP'', context)"

text \<open>
  \<^verbatim>\<open>faq_lookup_tool\<close> (main.py, lines 48-65). The operator \<^verbatim>\<open>in\<close> on strings is the
  substring test, \<^const>\<open>sublist\<close> on character lists. The branches are tried in the
  order of the source.
\<close>

definition faq_lookup_tool :: "string \<Rightarrow> string" where
  "faq_lookup_tool question =
     (let q = lower question
      in if sublist ''bag'' q \<or> sublist ''baggage'' q then
           ''You are allowed to bring one bag on the plane. ''
           @ ''It must be under 50 pounds and 22 inches x 14 inches x 9 inches.''
         else if sublist ''seats'' q \<or> sublist ''plane'' q then
           ''There are 120 seats on the plane. ''
           @ ''There are 22 business class seats and 98 economy seats. ''
           @ ''Exit rows are rows 4 and 16. ''
           @ ''Rows 5-8 are Economy Plus, with extra legroom.''
         else if sublist ''wifi'' q then
           ''We have free wifi on the plane, join Airline-Wifi''
         else ''I'm sorry, I don't know the answer to that question.'')"

section \<open>Handoff hooks\<close>

text \<open>
  \<^verbatim>\<open>on_seat_booking_handoff\<close> (main.py, lines 113-116): two unconditional writes, the
  flight number first. \<^verbatim>\<open>"".join\<close> of the chosen one-character strings is the list of
  the chosen characters.
\<close>

definition on_seat_booking_handoff :: "AirlineAgentContext \<Rightarrow> rng \<Rightarrow> AirlineAgentContext \<times> rng" where
  "on_seat_booking_handoff context g =
     (let (n, g1) = randint 100 999 g;
          context1 = context\<lparr>flight_number := Some (''FLT-'' @ str_int n)\<rparr>;
          (cs, g2) = choices (string_ascii_uppercase @ string_digits) 6 g1;
          context2 = context1\<lparr>confirmation_number := Some cs\<rparr>
      in (context2, g2))"

text \<open>
  \<^verbatim>\<open>on_cancellation_handoff\<close> (main.py, lines 246-255): each field is written only when
  it is \<^verbatim>\<open>None\<close>, the confirmation number first.
\<close>

definition on_cancellation_handoff :: "AirlineAgentContext \<Rightarrow> rng \<Rightarrow> AirlineAgentContext \<times> rng" where
  "on_cancellation_handoff context g =
     (let (context1, g1) =
            (if confirmation_number context = None then
               (let (cs, g') = choices (string_ascii_uppercase @ string_digits) 6 g
                in (context\<lparr>confirmation_number := Some cs\<rparr>, g'))
             else (context, g));
          (context2, g2) =
            (if flight_number context1 = None then
               (let (n, g') = randint 100 999 g1
                in (context1\<lparr>flight_number := Some (''FLT-'' @ str_int n)\<rparr>, g'))
             else (context1, g1))
      in (context2, g2))"

section \<open>Instructions of the cancellation agent\<close>

text \<open>
  \<^verbatim>\<open>cancellation_instructions\<close> (main.py, lines 257-270). The constant
  \<^verbatim>\<open>RECOMMENDED_PROMPT_PREFIX\<close> comes from the agents library and is a parameter here.
  The second argument of the source, the agent, is not used by it.
\<close>

definition cancellation_instructions :: "string \<Rightarrow> AirlineAgentContext \<Rightarrow> string" where
  "cancellation_instructions RECOMMENDED_PROMPT_PREFIX ctx =
     (let confirmation = or_default (confirmation_number ctx) ''[unknown]'';
          flight = or_default (flight_number ctx) ''[unknown]''
      in RECOMMENDED_PROMPT_PREFIX @ ''\<newline>''
         @ ''You are a Cancellation Agent. Use the following routine to support the customer:\<newline>''
         @ ''1. The customer's confirmation number is '' @ confirmation
         @ '' and flight number is '' @ flight @ ''.\<newline>''
         @ ''   If either is not available, ask the customer for the missing information. If you have both, confirm with the customer that these are correct.\<newline>''
         @ ''2. If the customer confirms, use the cancel_flight tool to cancel their flight.\<newline>''
         @ ''If the customer asks anything else, transfer back to the triage agent.'')"

section \<open>Guardrails\<close>

text \<open>
  \<^verbatim>\<open>RelevanceOutput\<close>, \<^verbatim>\<open>JailbreakOutput\<close> and the library's
  \<^verbatim>\<open>GuardrailFunctionOutput\<close>.
\<close>

record RelevanceOutput =
  relevance_reasoning :: string
  is_relevant :: bool

record JailbreakOutput =
  jailbreak_reasoning :: string
  is_safe :: bool

record 'a GuardrailFunctionOutput =
  output_info :: 'a
  tripwire_triggered :: bool

text \<open>
  \<^verbatim>\<open>relevance_guardrail\<close> (main.py, lines 141-148) and \<^verbatim>\<open>jailbreak_guardrail\<close>
  (lines 171-178). The inference call \<^verbatim>\<open>Runner.run(guardrail_agent, input, context)\<close>
  followed by \<^verbatim>\<open>final_output_as\<close> is external; it is the parameter \<open>run\<close>, a function
  of the input and of the context it is given, returning the verdict. The guardrail
  receives the context and returns it together with its output. The second argument of
  the source, the agent, is not used by it.
\<close>

definition relevance_guardrail ::
  "('i \<Rightarrow> AirlineAgentContext \<Rightarrow> RelevanceOutput) \<Rightarrow> AirlineAgentContext \<Rightarrow> 'i
     \<Rightarrow> RelevanceOutput GuardrailFunctionOutput \<times> AirlineAgentContext" where
  "relevance_guardrail run context input =
     (let final = run input context
      in (\<lparr>output_info = final, tripwire_triggered = (\<not> is_relevant final)\<rparr>, context))"

definition jailbreak_guardrail ::
  "('i \<Rightarrow> AirlineAgentContext \<Rightarrow> JailbreakOutput) \<Rightarrow> AirlineAgentContext \<Rightarrow> 'i
     \<Rightarrow> JailbreakOutput GuardrailFunctionOutput \<times> AirlineAgentContext" where
  "jailbreak_guardrail run context input =
     (let final = run input context
      in (\<lparr>output_info = final, tripwire_triggered = (\<not> is_safe final)\<rparr>, context))"

section \<open>The routing graph\<close>

text \<open>
  The five agents of main.py, and the entries of an agent's \<^verbatim>\<open>handoffs\<close> list: an
  agent itself, or \<^verbatim>\<open>handoff(agent=..., on_handoff=...)\<close> with its hook.
\<close>

datatype agent =
  triage_agent | faq_agent | seat_booking_agent | flight_status_agent | cancellation_agent

datatype hook = on_seat_booking_handoff_hook | on_cancellation_handoff_hook

datatype handoff_entry = Agent_entry agent | Handoff_entry agent hook

fun target :: "handoff_entry \<Rightarrow> agent" where
  "target (Agent_entry a) = a"
| "target (Handoff_entry a h) = a"

text \<open>
  The lists as the constructors leave them (main.py, lines 200-310): only the triage agent
  is given \<^verbatim>\<open>handoffs\<close>; the others start with the empty list of the library's default.
\<close>

fun handoffs_at_construction :: "agent \<Rightarrow> handoff_entry list" where
  "handoffs_at_construction triage_agent =
     [Agent_entry flight_status_agent,
      Handoff_entry cancellation_agent on_cancellation_handoff_hook,
      Agent_entry faq_agent,
      Handoff_entry seat_booking_agent on_seat_booking_handoff_hook]"
| "handoffs_at_construction a = []"

text \<open>\<^verbatim>\<open>a.handoffs.append(e)\<close> on the table of all the lists.\<close>

definition handoffs_append ::
  "(agent \<Rightarrow> handoff_entry list) \<Rightarrow> agent \<Rightarrow> handoff_entry \<Rightarrow> (agent \<Rightarrow> handoff_entry list)" where
  "handoffs_append hs a e = hs(a := hs a @ [e])"

text \<open>The four appends of main.py, lines 313-317, in their order.\<close>

definition handoffs :: "agent \<Rightarrow> handoff_entry list" where
  "handoffs =
     (let hs1 = handoffs_append handoffs_at_construction faq_agent (Agent_entry triage_agent);
          hs2 = handoffs_append hs1 seat_booking_agent (Agent_entry triage_agent);
          hs3 = handoffs_append hs2 flight_status_agent (Agent_entry triage_agent);
          hs4 = handoffs_append hs3 cancellation_agent (Agent_entry triage_agent)
      in hs4)"

section \<open>The chat endpoint\<close>

text \<open>
  \<^verbatim>\<open>chat\<close> (main.py, lines 337-342). Two inference services are external. One is
  \<^verbatim>\<open>gabi.run\<close>, which the endpoint calls with the message. The other is the run of the
  triage-rooted graph on a Session Context, a history and a message
  (\<^verbatim>\<open>Runner.run\<close> on \<^verbatim>\<open>triage_agent\<close>), which main.py never calls; it is part of the
  environment so that the endpoint can be compared with it.
\<close>

record RunResult =
  final_output :: string

record environment =
  gabi_run :: "string \<Rightarrow> RunResult"
  triage_run :: "AirlineAgentContext \<Rightarrow> string list \<Rightarrow> string \<Rightarrow> RunResult"

text \<open>
  The body of the request and the response are JSON objects with string values;
  \<^verbatim>\<open>data.get("message", "")\<close> is the lookup with the empty string as default.
\<close>

type_synonym json_object = "string \<rightharpoonup> string"

definition chat :: "environment \<Rightarrow> json_object \<Rightarrow> json_object" where
  "chat env data =
     (let user_message = (case data ''message'' of None \<Rightarrow> [] | Some m \<Rightarrow> m);
          result = gabi_run env user_message
      in [''response'' \<mapsto> final_output result])"

text \<open>
  A fixed environment for concrete evaluation: \<^verbatim>\<open>gabi.run\<close> answers \<^verbatim>\<open>"gabi: "\<close>
  followed by the message, the triage-rooted run answers \<^verbatim>\<open>"triage: "\<close> followed by
  the message.
\<close>

definition example_gabi_run :: "string \<Rightarrow> RunResult" where
  "example_gabi_run m = \<lparr>final_output = ''gabi: '' @ m\<rparr>"

definition example_triage_run :: "AirlineAgentContext \<Rightarrow> string list \<Rightarrow> string \<Rightarrow> RunResult" where
  "example_triage_run ctx history m = \<lparr>final_output = ''triage: '' @ m\<rparr>"

definition example_environment :: environment where
  "example_environment = \<lparr>gabi_run = example_gabi_run, triage_run = example_triage_run\<rparr>"

section \<open>Facts about the built-ins and the hooks\<close>

subsection \<open>Decimal rendering\<close>

text \<open>
  The rendering of a natural number consists of digits, and a number with \<open>k + 1\<close>
  decimal places is rendered by \<open>k + 1\<close> characters.
\<close>

lemma digit_index: "d < 10 \<Longrightarrow> isdigit (string_digits ! d)"
  unfolding isdigit_def by (rule nth_mem) (simp add: string_digits_def)

lemma str_nat_digits: "list_all isdigit (str_nat n)"
proof (induction n rule: str_nat.induct)
  case (1 n)
  show ?case
  proof (cases "n < 10")
    case True
    then show ?thesis by (subst str_nat.simps) (simp add: digit_index)
  next
    case False
    then have "list_all isdigit (str_nat (n div 10))" using 1 by simp
    moreover have "isdigit (string_digits ! (n mod 10))" by (rule digit_index) simp
    ultimately show ?thesis using False by (subst str_nat.simps) simp
  qed
qed

lemma str_nat_length: "10 ^ k \<le> n \<Longrightarrow> n < 10 ^ Suc k \<Longrightarrow> length (str_nat n) = Suc k"
proof (induction k arbitrary: n)
  case 0
  then show ?case by (subst str_nat.simps) simp
next
  case (Suc k)
  define m :: nat where "m = 10 ^ k"
  have m: "1 \<le> m" by (simp add: m_def)
  from Suc.prems have lo: "10 * m \<le> n" and hi: "n < 100 * m" by (simp_all add: m_def)
  from lo m have big: "\<not> n < 10" by linarith
  from lo have "m \<le> n div 10" by linarith
  moreover from hi have "n div 10 < 10 * m" by linarith
  ultimately have "length (str_nat (n div 10)) = Suc k"
    using Suc.IH [of "n div 10"] by (simp add: m_def)
  then show ?case using big by (subst str_nat.simps) simp
qed

subsection \<open>The random source\<close>

text \<open>
  \<^const>\<open>randint\<close> stays within its bounds for every sequence of draws, and every integer
  within the bounds is the outcome of some sequence. \<^const>\<open>choices\<close> returns as many
  elements as it is asked for, all of them from the population.
\<close>

lemma randint_range:
  assumes "a \<le> b"
  shows "a \<le> fst (randint a b g) \<and> fst (randint a b g) \<le> b"
proof -
  have pos: "0 < nat (b - a + 1)" using assms by simp
  have "g 0 mod nat (b - a + 1) < nat (b - a + 1)" using pos by (rule mod_less_divisor)
  then have "int (g 0 mod nat (b - a + 1)) \<le> b - a" using assms by linarith
  then show ?thesis by (simp add: randint_def draw_def)
qed

lemma randint_onto:
  assumes "a \<le> n" "n \<le> b"
  shows "fst (randint a b (\<lambda>i. nat (n - a))) = n"
  using assms by (simp add: randint_def draw_def)

lemma choices_length: "length (fst (choices population k g)) = k"
  by (induction k arbitrary: g) (simp_all add: draw_def Let_def case_prod_beta)

lemma choices_members:
  "population \<noteq> [] \<Longrightarrow> list_all (\<lambda>c. c \<in> set population) (fst (choices population k g))"
  by (induction k arbitrary: g) (simp_all add: draw_def Let_def case_prod_beta)

subsection \<open>Substrings across a concatenation\<close>

text \<open>
  A string that starts with \<open>c\<close> and does not occur in \<open>xs\<close> does not occur in \<open>xs\<close>
  followed by \<open>y # ys\<close> either, provided that \<open>c\<close> does not occur in \<open>y # ys\<close> and \<open>y\<close>
  does not occur after its first character.
\<close>

lemma no_sublist_append:
  assumes xs: "\<not> sublist (c # s) xs"
    and c: "c \<notin> set (y # ys)"
    and y: "y \<notin> set s"
  shows "\<not> sublist (c # s) (xs @ y # ys)"
proof
  assume "sublist (c # s) (xs @ y # ys)"
  then obtain ps ss where eq: "xs @ y # ys = ps @ (c # s) @ ss"
    by (auto simp: sublist_def)
  then have "\<exists>us. (xs = ps @ us \<and> us @ y # ys = (c # s) @ ss)
                \<or> (xs @ us = ps \<and> y # ys = us @ (c # s) @ ss)"
    by (simp only: append_eq_append_conv2)
  then obtain us where split1:
    "(xs = ps @ us \<and> us @ y # ys = (c # s) @ ss) \<or> (xs @ us = ps \<and> y # ys = us @ (c # s) @ ss)"
    by blast
  show False
  proof (cases "xs = ps @ us \<and> us @ y # ys = (c # s) @ ss")
    case False
    with split1 have tail: "y # ys = us @ (c # s) @ ss" by blast
    have "c \<in> set (us @ (c # s) @ ss)" by simp
    then have "c \<in> set (y # ys)" by (simp only: tail)
    with c show False by blast
  next
    case True
    then have xs_eq: "xs = ps @ us" and "us @ y # ys = (c # s) @ ss" by blast+
    then have "\<exists>vs. (us = (c # s) @ vs \<and> vs @ y # ys = ss)
                   \<or> (us @ vs = c # s \<and> y # ys = vs @ ss)"
      by (simp only: append_eq_append_conv2)
    then obtain vs where split2:
      "(us = (c # s) @ vs \<and> vs @ y # ys = ss) \<or> (us @ vs = c # s \<and> y # ys = vs @ ss)"
      by blast
    show False
    proof (cases vs)
      case Nil
      with split2 have "us = c # s" by auto
      with xs_eq have "sublist (c # s) xs" by (auto simp: sublist_def intro: exI [of _ "[]"])
      with xs show False by simp
    next
      case (Cons v vs')
      show False
      proof (cases "us = (c # s) @ vs")
        case True
        with xs_eq have "xs = ps @ (c # s) @ vs" by simp
        then have "sublist (c # s) xs" unfolding sublist_def by blast
        with xs show False by simp
      next
        case False
        with split2 Cons have "us @ y # vs' = c # s" by auto
        then show False using c y by (cases us) auto
      qed
    qed
  qed
qed

subsection \<open>The fields written by the hooks\<close>

lemma str_int_digits: "0 \<le> n \<Longrightarrow> list_all isdigit (str_int n)"
  by (simp add: str_int_def str_nat_digits)

lemma str_int_length_3: "100 \<le> n \<Longrightarrow> n \<le> 999 \<Longrightarrow> length (str_int n) = 3"
  using str_nat_length [of 2 "nat n"] by (simp add: str_int_def)

lemma str_int_length_8: "10000000 \<le> n \<Longrightarrow> n \<le> 99999999 \<Longrightarrow> length (str_int n) = 8"
  using str_nat_length [of 7 "nat n"] by (simp add: str_int_def)

lemma on_seat_booking_handoff_fields:
  "flight_number (fst (on_seat_booking_handoff context g))
     = Some (''FLT-'' @ str_int (fst (randint 100 999 g)))"
  "confirmation_number (fst (on_seat_booking_handoff context g))
     = Some (fst (choices (string_ascii_uppercase @ string_digits) 6 (snd (randint 100 999 g))))"
  "passenger_name (fst (on_seat_booking_handoff context g)) = passenger_name context"
  "seat_number (fst (on_seat_booking_handoff context g)) = seat_number context"
  "account_number (fst (on_seat_booking_handoff context g)) = account_number context"
  by (simp_all add: on_seat_booking_handoff_def Let_def case_prod_beta)

lemma on_cancellation_handoff_confirmation:
  "confirmation_number (fst (on_cancellation_handoff context g))
     = (case confirmation_number context of
          None \<Rightarrow> Some (fst (choices (string_ascii_uppercase @ string_digits) 6 g))
        | Some c \<Rightarrow> Some c)"
  by (simp add: on_cancellation_handoff_def Let_def case_prod_beta split: option.splits)

lemma on_cancellation_handoff_flight:
  "flight_number (fst (on_cancellation_handoff context g))
     = (case flight_number context of
          None \<Rightarrow> Some (''FLT-'' @ str_int (fst (randint 100 999
                    (if confirmation_number context = None
                     then snd (choices (string_ascii_uppercase @ string_digits) 6 g) else g))))
        | Some f \<Rightarrow> Some f)"
  by (simp add: on_cancellation_handoff_def Let_def case_prod_beta split: option.splits)

subsection \<open>The placeholder in the instructions\<close>

lemma alphabet_nonempty: "string_ascii_uppercase @ string_digits \<noteq> []"
  by (simp add: string_digits_def)

lemma bracket_not_digit: "\<not> isdigit CHR ''[''"
  by (simp add: isdigit_def string_digits_def)

lemma no_bracket_digits: "list_all isdigit s \<Longrightarrow> CHR ''['' \<notin> set s"
  using bracket_not_digit by (auto simp: list_all_iff)

lemma bracket_not_in_alphabet: "CHR ''['' \<notin> set (string_ascii_uppercase @ string_digits)"
  by (simp add: string_ascii_uppercase_def string_digits_def)

lemma no_bracket_alphabet:
  "list_all (\<lambda>c. c \<in> set (string_ascii_uppercase @ string_digits)) s \<Longrightarrow> CHR ''['' \<notin> set s"
  using bracket_not_in_alphabet by (auto simp: list_all_iff)

lemma cancellation_instructions_no_placeholder:
  assumes prefix: "\<not> sublist ''[unknown]'' p"
    and conf: "confirmation_number ctx = Some c" "c \<noteq> []" "CHR ''['' \<notin> set c"
    and flight: "flight_number ctx = Some f" "f \<noteq> []" "CHR ''['' \<notin> set f"
  shows "\<not> sublist ''[unknown]'' (cancellation_instructions p ctx)"
proof -
  define rest where "rest =
     ''You are a Cancellation Agent. Use the following routine to support the customer:\<newline>''
         @ ''1. The customer's confirmation number is '' @ c
         @ '' and flight number is '' @ f @ ''.\<newline>''
         @ ''   If either is not available, ask the customer for the missing information. If you have both, confirm with the customer that these are correct.\<newline>''
         @ ''2. If the customer confirms, use the cancel_flight tool to cancel their flight.\<newline>''
         @ ''If the customer asks anything else, transfer back to the triage agent.''"
  have shape: "cancellation_instructions p ctx = p @ CHR 0x0A # rest"
    using conf flight by (simp add: cancellation_instructions_def or_default_def rest_def)
  have "CHR ''['' \<notin> set (CHR 0x0A # rest)"
    using conf(3) flight(3) by (simp add: rest_def)
  moreover have "CHR 0x0A \<notin> set ''unknown]''" by simp
  ultimately have "\<not> sublist (CHR ''['' # ''unknown]'') (p @ CHR 0x0A # rest)"
    using prefix by (intro no_sublist_append) simp_all
  then show ?thesis by (simp add: shape)
qed

subsection \<open>Evaluation on concrete inputs\<close>

lemma choices_6:
  "fst (choices p 6 g) =
     [p ! (g 0 mod length p), p ! (g 1 mod length p), p ! (g 2 mod length p),
      p ! (g 3 mod length p), p ! (g 4 mod length p), p ! (g 5 mod length p)]"
proof -
  have six: "(6::nat) = Suc (Suc (Suc (Suc (Suc (Suc 0)))))" by simp
  show ?thesis
    unfolding six by (simp add: draw_def Let_def case_prod_beta eval_nat_numeral)
qed

lemma snd_choices: "snd (choices p k g) = (\<lambda>i. g (i + k))"
  by (induction k arbitrary: g) (simp_all add: draw_def Let_def case_prod_beta)

lemma str_nat_103: "str_nat 103 = ''103''"
  by (simp add: str_nat.simps string_digits_def)

lemma str_nat_145: "str_nat 145 = ''145''"
  by (simp add: str_nat.simps string_digits_def)

lemma str_nat_12345678: "str_nat 12345678 = ''12345678''"
  by (simp add: str_nat.simps string_digits_def)

lemma create_initial_context_example:
  "fst (create_initial_context (\<lambda>i. 2345678))
     = AirlineAgentContext_default\<lparr>account_number := Some ''12345678''\<rparr>"
  by (simp add: create_initial_context_def randint_def draw_def str_int_def str_nat_12345678)

lemma lower_char_eval:
  "lower_char c =
     (case map_of (zip ''ABCDEFGHIJKLMNOPQRSTUVWXYZ'' ''abcdefghijklmnopqrstuvwxyz'') c of
        None \<Rightarrow> c
      | Some d \<Rightarrow> d)"
  by (simp only: lower_char_def string_ascii_uppercase_def string_ascii_lowercase_def)

lemmas lower_eval = lower_def lower_char_eval

lemma bag_in_baggage: "sublist ''bag'' ''baggage''"
  by (simp add: sublist_Cons_right)

lemma chat_without_message:
  "data ''message'' = None \<Longrightarrow> chat env data = [''response'' \<mapsto> final_output (gabi_run env [])]"
  by (simp add: chat_def)

lemma update_seat_without_flight:
  assumes "flight_number context = None"
  shows "update_seat context c s
           = (Inl (AssertionError ''Flight number is required''),
              context\<lparr>confirmation_number := Some c, seat_number := Some s\<rparr>)"
  using assms by (simp add: update_seat_def Let_def)

section \<open>The seat update\<close>

text \<open>
  Claim C1 says that \<^verbatim>\<open>update_seat\<close> on a context without a flight number fails and
  leaves every field of the context as it was. The call does fail, but the confirmation
  number and the seat have been written by then: on the default context with the
  arguments \<^verbatim>\<open>"ABC123"\<close> and \<^verbatim>\<open>"12A"\<close> the assertion fires and the context left behind
  holds both values.
\<close>

theorem update_seat_writes_before_assert:
  "update_seat AirlineAgentContext_default ''ABC123'' ''12A'' =
     (Inl (AssertionError ''Flight number is required''),
      AirlineAgentContext_default
        \<lparr>confirmation_number := Some ''ABC123'', seat_number := Some ''12A''\<rparr>)
   \<and> snd (update_seat AirlineAgentContext_default ''ABC123'' ''12A'')
       \<noteq> AirlineAgentContext_default"
  by (simp add: update_seat_def AirlineAgentContext_default_def Let_def)

text \<open>
  Claim C2: when the flight number is set, \<^verbatim>\<open>update_seat\<close> returns the confirmation
  text built from the two arguments, and afterwards the seat and the confirmation number
  of the context are the supplied ones.
\<close>

theorem update_seat_ok:
  assumes "flight_number context \<noteq> None"
  shows "fst (update_seat context c s)
           = Inr (''Updated seat to '' @ s @ '' for confirmation number '' @ c)
         \<and> seat_number (snd (update_seat context c s)) = Some s
         \<and> confirmation_number (snd (update_seat context c s)) = Some c"
  using assms by (simp add: update_seat_def Let_def)

theorem update_seat_ok_witness:
  "flight_number (AirlineAgentContext_default\<lparr>flight_number := Some ''FLT-123''\<rparr>) \<noteq> None
   \<and> fst (update_seat (AirlineAgentContext_default\<lparr>flight_number := Some ''FLT-123''\<rparr>)
             ''ABC123'' ''12A'')
       = Inr ''Updated seat to 12A for confirmation number ABC123''
   \<and> seat_number (snd (update_seat
         (AirlineAgentContext_default\<lparr>flight_number := Some ''FLT-123''\<rparr>) ''ABC123'' ''12A''))
       = Some ''12A''
   \<and> confirmation_number (snd (update_seat
         (AirlineAgentContext_default\<lparr>flight_number := Some ''FLT-123''\<rparr>) ''ABC123'' ''12A''))
       = Some ''ABC123''"
  using update_seat_ok [of "AirlineAgentContext_default\<lparr>flight_number := Some ''FLT-123''\<rparr>"
      "''ABC123''" "''12A''"]
  by simp

section \<open>Set fields stay set\<close>

text \<open>
  Claim C3: for each operation that receives the Session Context for writing (the tools
  \<^verbatim>\<open>update_seat\<close> and \<^verbatim>\<open>cancel_flight\<close>, the hooks \<^verbatim>\<open>on_seat_booking_handoff\<close> and
  \<^verbatim>\<open>on_cancellation_handoff\<close>), a confirmation number that is not \<^verbatim>\<open>None\<close> before the
  operation is not \<^verbatim>\<open>None\<close> after it, and likewise a flight number. For
  \<^verbatim>\<open>update_seat\<close> this covers the failing call as well, since the context it leaves
  behind is the one considered.
\<close>

theorem set_fields_never_cleared:
  "(confirmation_number context \<noteq> None \<longrightarrow>
      confirmation_number (snd (update_seat context c s)) \<noteq> None
      \<and> confirmation_number (snd (cancel_flight context)) \<noteq> None
      \<and> confirmation_number (fst (on_seat_booking_handoff context g)) \<noteq> None
      \<and> confirmation_number (fst (on_cancellation_handoff context g)) \<noteq> None)
   \<and> (flight_number context \<noteq> None \<longrightarrow>
      flight_number (snd (update_seat context c s)) \<noteq> None
      \<and> flight_number (snd (cancel_flight context)) \<noteq> None
      \<and> flight_number (fst (on_seat_booking_handoff context g)) \<noteq> None
      \<and> flight_number (fst (on_cancellation_handoff context g)) \<noteq> None)"
proof -
  have tools: "confirmation_number (snd (update_seat context c s)) \<noteq> None"
    "flight_number (snd (update_seat context c s)) = flight_number context"
    "snd (cancel_flight context) = context"
    by (simp_all add: update_seat_def cancel_flight_def Let_def split: option.splits)
  have hooks: "confirmation_number (fst (on_seat_booking_handoff context g)) \<noteq> None"
    "flight_number (fst (on_seat_booking_handoff context g)) \<noteq> None"
    "confirmation_number (fst (on_cancellation_handoff context g)) \<noteq> None"
    "flight_number (fst (on_cancellation_handoff context g)) \<noteq> None"
    by (simp_all add: on_seat_booking_handoff_fields on_cancellation_handoff_confirmation
        on_cancellation_handoff_flight split: option.splits)
  show ?thesis using tools hooks by simp
qed

theorem set_fields_never_cleared_witness:
  "confirmation_number
     (AirlineAgentContext_default\<lparr>confirmation_number := Some ''ABC123'',
        flight_number := Some ''FLT-123''\<rparr>) \<noteq> None
   \<and> flight_number
     (AirlineAgentContext_default\<lparr>confirmation_number := Some ''ABC123'',
        flight_number := Some ''FLT-123''\<rparr>) \<noteq> None
   \<and> confirmation_number (snd (update_seat
         (AirlineAgentContext_default\<lparr>confirmation_number := Some ''ABC123'',
            flight_number := Some ''FLT-123''\<rparr>) ''XYZ789'' ''12A'')) \<noteq> None
   \<and> flight_number (snd (cancel_flight
         (AirlineAgentContext_default\<lparr>confirmation_number := Some ''ABC123'',
            flight_number := Some ''FLT-123''\<rparr>))) \<noteq> None
   \<and> confirmation_number (fst (on_seat_booking_handoff
         (AirlineAgentContext_default\<lparr>confirmation_number := Some ''ABC123'',
            flight_number := Some ''FLT-123''\<rparr>) (\<lambda>i. i))) \<noteq> None
   \<and> flight_number (fst (on_cancellation_handoff
         (AirlineAgentContext_default\<lparr>confirmation_number := Some ''ABC123'',
            flight_number := Some ''FLT-123''\<rparr>) (\<lambda>i. i))) \<noteq> None"
  using set_fields_never_cleared
    [of "AirlineAgentContext_default\<lparr>confirmation_number := Some ''ABC123'',
           flight_number := Some ''FLT-123''\<rparr>" "''XYZ789''" "''12A''" "\<lambda>i. i"]
  by simp

section \<open>The account number of a new context\<close>

text \<open>
  Claim C6: whatever the random source yields, \<^verbatim>\<open>create_initial_context\<close> returns a
  context whose account number is the decimal rendering of an integer between 10000000
  and 99999999, a string of exactly 8 digits, and whose passenger name, confirmation
  number, seat number and flight number are \<^verbatim>\<open>None\<close>.
\<close>

theorem create_initial_context_account_number:
  "\<exists>n. 10000000 \<le> n \<and> n \<le> 99999999
       \<and> account_number (fst (create_initial_context g)) = Some (str_int n)
       \<and> length (str_int n) = 8
       \<and> list_all isdigit (str_int n)
       \<and> passenger_name (fst (create_initial_context g)) = None
       \<and> confirmation_number (fst (create_initial_context g)) = None
       \<and> seat_number (fst (create_initial_context g)) = None
       \<and> flight_number (fst (create_initial_context g)) = None"
proof -
  define n where "n = fst (randint 10000000 99999999 g)"
  have range: "10000000 \<le> n" "n \<le> 99999999"
    using randint_range [of 10000000 99999999 g] by (simp_all add: n_def)
  have ctx: "fst (create_initial_context g)
               = AirlineAgentContext_default\<lparr>account_number := Some (str_int n)\<rparr>"
    by (simp add: create_initial_context_def n_def Let_def case_prod_beta)
  have "length (str_int n) = 8" using range by (rule str_int_length_8)
  moreover have "list_all isdigit (str_int n)" using range by (intro str_int_digits) simp
  ultimately show ?thesis
    using range by (intro exI [of _ n]) (simp add: ctx AirlineAgentContext_default_def)
qed

section \<open>The cancellation handoff\<close>

text \<open>
  Claim C4: on a context whose confirmation number and flight number are both
  \<^verbatim>\<open>None\<close>, \<^verbatim>\<open>on_cancellation_handoff\<close> leaves both fields set to synthetic values (six
  characters out of the upper-case letters and digits; \<^verbatim>\<open>FLT-\<close> and a number between 100
  and 999), and the text of \<^verbatim>\<open>cancellation_instructions\<close> on the resulting context does
  not contain \<^verbatim>\<open>[unknown]\<close>. The library's prompt prefix is a parameter; the text can
  only be free of the placeholder when the prefix is.
\<close>

theorem cancellation_handoff_fills_context:
  assumes "confirmation_number context = None"
    and "flight_number context = None"
    and "\<not> sublist ''[unknown]'' RECOMMENDED_PROMPT_PREFIX"
  shows "confirmation_number (fst (on_cancellation_handoff context g)) \<noteq> None
         \<and> flight_number (fst (on_cancellation_handoff context g)) \<noteq> None
         \<and> (\<exists>cs n. confirmation_number (fst (on_cancellation_handoff context g)) = Some cs
               \<and> length cs = 6
               \<and> list_all (\<lambda>c. c \<in> set (string_ascii_uppercase @ string_digits)) cs
               \<and> flight_number (fst (on_cancellation_handoff context g))
                   = Some (''FLT-'' @ str_int n)
               \<and> 100 \<le> n \<and> n \<le> 999)
         \<and> \<not> sublist ''[unknown]''
               (cancellation_instructions RECOMMENDED_PROMPT_PREFIX
                  (fst (on_cancellation_handoff context g)))"
proof -
  define cs where "cs = fst (choices (string_ascii_uppercase @ string_digits) 6 g)"
  define g1 where "g1 = snd (choices (string_ascii_uppercase @ string_digits) 6 g)"
  define n where "n = fst (randint 100 999 g1)"
  let ?ctx = "fst (on_cancellation_handoff context g)"
  have conf: "confirmation_number ?ctx = Some cs"
    using assms(1) by (simp add: on_cancellation_handoff_confirmation cs_def)
  have flight: "flight_number ?ctx = Some (''FLT-'' @ str_int n)"
    using assms(1,2) by (simp add: on_cancellation_handoff_flight n_def g1_def)
  have len: "length cs = 6" by (simp add: cs_def choices_length)
  have members: "list_all (\<lambda>c. c \<in> set (string_ascii_uppercase @ string_digits)) cs"
    unfolding cs_def using alphabet_nonempty by (rule choices_members)
  have range: "100 \<le> n" "n \<le> 999"
    using randint_range [of 100 999 g1] by (simp_all add: n_def)
  have "CHR ''['' \<notin> set (str_int n)"
    using range by (intro no_bracket_digits str_int_digits) simp
  then have flight_clean: "CHR ''['' \<notin> set (''FLT-'' @ str_int n)" by simp
  have conf_clean: "CHR ''['' \<notin> set cs" using members by (rule no_bracket_alphabet)
  have "cs \<noteq> []" using len by auto
  then have "\<not> sublist ''[unknown]'' (cancellation_instructions RECOMMENDED_PROMPT_PREFIX ?ctx)"
    using assms(3) conf conf_clean flight flight_clean
    by (intro cancellation_instructions_no_placeholder [where c = cs and f = "''FLT-'' @ str_int n"])
      simp_all
  then show ?thesis using conf flight len members range by auto
qed

theorem cancellation_handoff_fills_context_witness:
  "confirmation_number AirlineAgentContext_default = None
   \<and> flight_number AirlineAgentContext_default = None
   \<and> \<not> sublist ''[unknown]'' ''# System context''
   \<and> confirmation_number (fst (on_cancellation_handoff AirlineAgentContext_default (\<lambda>i. 7 * i + 3)))
       = Some ''DKRY5C''
   \<and> flight_number (fst (on_cancellation_handoff AirlineAgentContext_default (\<lambda>i. 7 * i + 3)))
       = Some ''FLT-145''
   \<and> \<not> sublist ''[unknown]''
         (cancellation_instructions ''# System context''
            (fst (on_cancellation_handoff AirlineAgentContext_default (\<lambda>i. 7 * i + 3))))"
proof -
  have prefix_clean: "\<not> sublist ''[unknown]'' ''# System context''"
    by (simp add: sublist_Cons_right)
  have unset: "confirmation_number AirlineAgentContext_default = None"
    "flight_number AirlineAgentContext_default = None"
    by (simp_all add: AirlineAgentContext_default_def)
  have conf: "confirmation_number
      (fst (on_cancellation_handoff AirlineAgentContext_default (\<lambda>i. 7 * i + 3))) = Some ''DKRY5C''"
    by (simp add: on_cancellation_handoff_confirmation unset choices_6
        string_ascii_uppercase_def string_digits_def)
  have flight: "flight_number
      (fst (on_cancellation_handoff AirlineAgentContext_default (\<lambda>i. 7 * i + 3))) = Some ''FLT-145''"
    by (simp add: on_cancellation_handoff_flight unset snd_choices randint_def draw_def
        str_int_def str_nat_145)
  show ?thesis
    using cancellation_handoff_fills_context [OF unset prefix_clean, of "\<lambda>i. 7 * i + 3"]
      unset prefix_clean conf flight
    by simp
qed

section \<open>The seat booking handoff\<close>

text \<open>
  Claim C10: \<^verbatim>\<open>on_seat_booking_handoff\<close> writes both fields whatever they held before.
  Afterwards the flight number is \<^verbatim>\<open>FLT-\<close> followed by the three digits of a number
  between 100 and 999 and the confirmation number is six characters out of the
  upper-case letters and digits; both depend on the random source only, not on the
  context the hook was given. \<^verbatim>\<open>on_cancellation_handoff\<close>, in contrast, keeps a
  confirmation number or a flight number that is already set.
\<close>

theorem on_seat_booking_handoff_overwrites:
  "(\<exists>n cs. 100 \<le> n \<and> n \<le> 999
       \<and> flight_number (fst (on_seat_booking_handoff context g)) = Some (''FLT-'' @ str_int n)
       \<and> length (str_int n) = 3
       \<and> list_all isdigit (str_int n)
       \<and> confirmation_number (fst (on_seat_booking_handoff context g)) = Some cs
       \<and> length cs = 6
       \<and> list_all (\<lambda>c. c \<in> set (string_ascii_uppercase @ string_digits)) cs)
   \<and> flight_number (fst (on_seat_booking_handoff context g))
       = flight_number (fst (on_seat_booking_handoff context' g))
   \<and> confirmation_number (fst (on_seat_booking_handoff context g))
       = confirmation_number (fst (on_seat_booking_handoff context' g))
   \<and> (confirmation_number context \<noteq> None \<longrightarrow>
        confirmation_number (fst (on_cancellation_handoff context g))
          = confirmation_number context)
   \<and> (flight_number context \<noteq> None \<longrightarrow>
        flight_number (fst (on_cancellation_handoff context g)) = flight_number context)"
proof -
  define n where "n = fst (randint 100 999 g)"
  define cs where
    "cs = fst (choices (string_ascii_uppercase @ string_digits) 6 (snd (randint 100 999 g)))"
  have range: "100 \<le> n" "n \<le> 999"
    using randint_range [of 100 999 g] by (simp_all add: n_def)
  have digits: "length (str_int n) = 3" "list_all isdigit (str_int n)"
    using range by (simp_all add: str_int_length_3 str_int_digits)
  have cs: "length cs = 6" "list_all (\<lambda>c. c \<in> set (string_ascii_uppercase @ string_digits)) cs"
    unfolding cs_def by (simp add: choices_length) (rule choices_members [OF alphabet_nonempty])
  have written: "flight_number (fst (on_seat_booking_handoff context g)) = Some (''FLT-'' @ str_int n)"
    "confirmation_number (fst (on_seat_booking_handoff context g)) = Some cs"
    by (simp_all add: on_seat_booking_handoff_fields n_def cs_def)
  have shape: "\<exists>n cs. 100 \<le> n \<and> n \<le> 999
       \<and> flight_number (fst (on_seat_booking_handoff context g)) = Some (''FLT-'' @ str_int n)
       \<and> length (str_int n) = 3
       \<and> list_all isdigit (str_int n)
       \<and> confirmation_number (fst (on_seat_booking_handoff context g)) = Some cs
       \<and> length cs = 6
       \<and> list_all (\<lambda>c. c \<in> set (string_ascii_uppercase @ string_digits)) cs"
    using range digits cs written by blast
  have same: "flight_number (fst (on_seat_booking_handoff context g))
       = flight_number (fst (on_seat_booking_handoff context' g))"
    "confirmation_number (fst (on_seat_booking_handoff context g))
       = confirmation_number (fst (on_seat_booking_handoff context' g))"
    by (simp_all add: on_seat_booking_handoff_fields)
  have kept: "confirmation_number context \<noteq> None \<longrightarrow>
        confirmation_number (fst (on_cancellation_handoff context g))
          = confirmation_number context"
    "flight_number context \<noteq> None \<longrightarrow>
        flight_number (fst (on_cancellation_handoff context g)) = flight_number context"
    by (auto simp: on_cancellation_handoff_confirmation on_cancellation_handoff_flight)
  show ?thesis using shape same kept by blast
qed

theorem on_seat_booking_handoff_overwrites_witness:
  "confirmation_number
     (AirlineAgentContext_default\<lparr>confirmation_number := Some ''ABC123'',
        flight_number := Some ''FLT-123''\<rparr>) \<noteq> None
   \<and> flight_number
     (AirlineAgentContext_default\<lparr>confirmation_number := Some ''ABC123'',
        flight_number := Some ''FLT-123''\<rparr>) \<noteq> None
   \<and> confirmation_number (fst (on_cancellation_handoff
        (AirlineAgentContext_default\<lparr>confirmation_number := Some ''ABC123'',
           flight_number := Some ''FLT-123''\<rparr>) (\<lambda>i. 7 * i + 3))) = Some ''ABC123''
   \<and> flight_number (fst (on_cancellation_handoff
        (AirlineAgentContext_default\<lparr>confirmation_number := Some ''ABC123'',
           flight_number := Some ''FLT-123''\<rparr>) (\<lambda>i. 7 * i + 3))) = Some ''FLT-123''
   \<and> flight_number (fst (on_seat_booking_handoff
        (AirlineAgentContext_default\<lparr>confirmation_number := Some ''ABC123'',
           flight_number := Some ''FLT-123''\<rparr>) (\<lambda>i. 7 * i + 3))) = Some ''FLT-103''
   \<and> confirmation_number (fst (on_seat_booking_handoff
        (AirlineAgentContext_default\<lparr>confirmation_number := Some ''ABC123'',
           flight_number := Some ''FLT-123''\<rparr>) (\<lambda>i. 7 * i + 3))) = Some ''KRY5CJ''"
proof -
  have flight: "flight_number (fst (on_seat_booking_handoff
        (AirlineAgentContext_default\<lparr>confirmation_number := Some ''ABC123'',
           flight_number := Some ''FLT-123''\<rparr>) (\<lambda>i. 7 * i + 3))) = Some ''FLT-103''"
    by (simp add: on_seat_booking_handoff_fields randint_def draw_def str_int_def str_nat_103)
  have conf: "confirmation_number (fst (on_seat_booking_handoff
        (AirlineAgentContext_default\<lparr>confirmation_number := Some ''ABC123'',
           flight_number := Some ''FLT-123''\<rparr>) (\<lambda>i. 7 * i + 3))) = Some ''KRY5CJ''"
    by (simp add: on_seat_booking_handoff_fields randint_def draw_def choices_6
        string_ascii_uppercase_def string_digits_def)
  show ?thesis
    using on_seat_booking_handoff_overwrites
      [of "AirlineAgentContext_default\<lparr>confirmation_number := Some ''ABC123'',
             flight_number := Some ''FLT-123''\<rparr>" "\<lambda>i. 7 * i + 3"]
      flight conf
    by simp
qed

section \<open>The FAQ tool\<close>

text \<open>
  Claim C7 says that \<^verbatim>\<open>faq_lookup_tool\<close> returns the wifi answer for every question
  whose lower-cased text contains \<^verbatim>\<open>wifi\<close>. The branches for baggage and for seats come
  first: the question \<^verbatim>\<open>"Is there wifi on the plane?"\<close> contains \<^verbatim>\<open>wifi\<close> and gets the
  answer about the seats, because it contains \<^verbatim>\<open>plane\<close> as well.
\<close>

theorem faq_lookup_tool_wifi_counterexample:
  "sublist ''wifi'' (lower ''Is there wifi on the plane?'')
   \<and> faq_lookup_tool ''Is there wifi on the plane?''
       = ''There are 120 seats on the plane. There are 22 business class seats and 98 economy seats. Exit rows are rows 4 and 16. Rows 5-8 are Economy Plus, with extra legroom.''
   \<and> faq_lookup_tool ''Is there wifi on the plane?''
       \<noteq> ''We have free wifi on the plane, join Airline-Wifi''"
proof -
  have q: "lower ''Is there wifi on the plane?'' = ''is there wifi on the plane?''"
    by (simp add: lower_eval)
  have "sublist ''wifi'' ''is there wifi on the plane?''"
    by (simp add: sublist_Cons_right)
  moreover have "\<not> sublist ''bag'' ''is there wifi on the plane?''"
    by (simp add: sublist_Cons_right)
  moreover have "\<not> sublist ''baggage'' ''is there wifi on the plane?''"
    by (simp add: sublist_Cons_right)
  moreover have "sublist ''plane'' ''is there wifi on the plane?''"
    by (simp add: sublist_Cons_right)
  ultimately show ?thesis
    by (simp add: faq_lookup_tool_def q)
qed

text \<open>
  Claim C7, amended: \<^verbatim>\<open>faq_lookup_tool\<close> applied to \<^verbatim>\<open>"What's your wifi policy?"\<close> returns
  exactly \<^verbatim>\<open>"We have free wifi on the plane, join Airline-Wifi"\<close>, and it returns that
  string for every question whose lower-cased text contains \<^verbatim>\<open>wifi\<close> and contains none
  of \<^verbatim>\<open>bag\<close>, \<^verbatim>\<open>seats\<close> and \<^verbatim>\<open>plane\<close>. The general part is about the lower-cased text
  only and uses nothing of how \<^const>\<open>lower\<close> maps the characters.
\<close>

theorem faq_lookup_tool_wifi:
  "faq_lookup_tool ''What's your wifi policy?''
     = ''We have free wifi on the plane, join Airline-Wifi''
   \<and> (sublist ''wifi'' (lower question)
        \<and> \<not> sublist ''bag'' (lower question)
        \<and> \<not> sublist ''seats'' (lower question)
        \<and> \<not> sublist ''plane'' (lower question)
      \<longrightarrow> faq_lookup_tool question = ''We have free wifi on the plane, join Airline-Wifi'')"
proof -
  have general: "faq_lookup_tool question' = ''We have free wifi on the plane, join Airline-Wifi''"
    if "sublist ''wifi'' (lower question')" "\<not> sublist ''bag'' (lower question')"
      "\<not> sublist ''seats'' (lower question')" "\<not> sublist ''plane'' (lower question')"
    for question'
  proof -
    have "\<not> sublist ''baggage'' (lower question')"
      using that(2) bag_in_baggage by (blast intro: sublist_order.order.trans)
    then show ?thesis using that by (simp add: faq_lookup_tool_def)
  qed
  have q: "lower ''What's your wifi policy?'' = ''what's your wifi policy?''"
    by (simp add: lower_eval)
  have "sublist ''wifi'' ''what's your wifi policy?''"
    by (simp add: sublist_Cons_right)
  moreover have "\<not> sublist ''bag'' ''what's your wifi policy?''"
    by (simp add: sublist_Cons_right)
  moreover have "\<not> sublist ''seats'' ''what's your wifi policy?''"
    by (simp add: sublist_Cons_right)
  moreover have "\<not> sublist ''plane'' ''what's your wifi policy?''"
    by (simp add: sublist_Cons_right)
  ultimately have "faq_lookup_tool ''What's your wifi policy?''
     = ''We have free wifi on the plane, join Airline-Wifi''"
    by (intro general) (simp_all add: q)
  then show ?thesis using general [of question] by blast
qed

theorem faq_lookup_tool_wifi_witness:
  "sublist ''wifi'' (lower ''Do you have WiFi on board?'')
   \<and> \<not> sublist ''bag'' (lower ''Do you have WiFi on board?'')
   \<and> \<not> sublist ''seats'' (lower ''Do you have WiFi on board?'')
   \<and> \<not> sublist ''plane'' (lower ''Do you have WiFi on board?'')
   \<and> faq_lookup_tool ''Do you have WiFi on board?''
       = ''We have free wifi on the plane, join Airline-Wifi''"
proof -
  have q: "lower ''Do you have WiFi on board?'' = ''do you have wifi on board?''"
    by (simp add: lower_eval)
  have hyps: "sublist ''wifi'' (lower ''Do you have WiFi on board?'')"
    "\<not> sublist ''bag'' (lower ''Do you have WiFi on board?'')"
    "\<not> sublist ''seats'' (lower ''Do you have WiFi on board?'')"
    "\<not> sublist ''plane'' (lower ''Do you have WiFi on board?'')"
    unfolding q by (simp_all add: sublist_Cons_right)
  show ?thesis
    using faq_lookup_tool_wifi [of "''Do you have WiFi on board?''"] hyps by blast
qed

section \<open>Every agent leads back to the triage agent\<close>

text \<open>
  Claim C8: in the routing graph as main.py builds it, every agent other than the triage
  agent has the triage agent among the targets of its handoffs: this holds for
  \<^verbatim>\<open>faq_agent\<close>, \<^verbatim>\<open>seat_booking_agent\<close>, \<^verbatim>\<open>flight_status_agent\<close> and
  \<^verbatim>\<open>cancellation_agent\<close>, and no agent has an empty list of handoffs.
\<close>

theorem every_agent_returns_to_triage:
  "(a \<noteq> triage_agent \<longrightarrow> triage_agent \<in> set (map target (handoffs a)))
   \<and> triage_agent \<in> set (map target (handoffs faq_agent))
   \<and> triage_agent \<in> set (map target (handoffs seat_booking_agent))
   \<and> triage_agent \<in> set (map target (handoffs flight_status_agent))
   \<and> triage_agent \<in> set (map target (handoffs cancellation_agent))
   \<and> handoffs a \<noteq> []"
proof -
  have spokes: "handoffs faq_agent = [Agent_entry triage_agent]"
    "handoffs seat_booking_agent = [Agent_entry triage_agent]"
    "handoffs flight_status_agent = [Agent_entry triage_agent]"
    "handoffs cancellation_agent = [Agent_entry triage_agent]"
    by (simp_all add: handoffs_def handoffs_append_def Let_def)
  have hub: "handoffs triage_agent = handoffs_at_construction triage_agent"
    by (simp add: handoffs_def handoffs_append_def Let_def)
  show ?thesis using spokes hub by (cases a) simp_all
qed

theorem every_agent_returns_to_triage_witness:
  "cancellation_agent \<noteq> triage_agent
   \<and> handoffs cancellation_agent = [Agent_entry triage_agent]
   \<and> triage_agent \<in> set (map target (handoffs cancellation_agent))"
  using every_agent_returns_to_triage [of cancellation_agent]
  by (simp add: handoffs_def handoffs_append_def Let_def)

section \<open>The guardrails\<close>

text \<open>
  Claim C9: with the inference call of each checker given as a function, the relevance
  guardrail reports a trip exactly when the verdict has \<^verbatim>\<open>is_relevant\<close> false, the
  jailbreak guardrail reports a trip exactly when the verdict has \<^verbatim>\<open>is_safe\<close> false,
  each hands the verdict on as \<^verbatim>\<open>output_info\<close>, and neither changes the Session
  Context.
\<close>

theorem guardrails_trip_on_verdict:
  "tripwire_triggered (fst (relevance_guardrail run_relevance context input))
     = (\<not> is_relevant (run_relevance input context))
   \<and> output_info (fst (relevance_guardrail run_relevance context input))
       = run_relevance input context
   \<and> snd (relevance_guardrail run_relevance context input) = context
   \<and> tripwire_triggered (fst (jailbreak_guardrail run_jailbreak context input))
       = (\<not> is_safe (run_jailbreak input context))
   \<and> output_info (fst (jailbreak_guardrail run_jailbreak context input))
       = run_jailbreak input context
   \<and> snd (jailbreak_guardrail run_jailbreak context input) = context"
  by (simp add: relevance_guardrail_def jailbreak_guardrail_def Let_def)

section \<open>The chat endpoint and the triage-rooted graph\<close>

text \<open>
  Claim C5 says that the chat endpoint runs the triage-rooted graph on the session's
  context and history (or on a fresh context) and returns the final output of that run.
  The endpoint calls \<^verbatim>\<open>gabi.run\<close> instead: in the example environment the request
  \<^verbatim>\<open>{"message": "hi"}\<close> is answered with the output of \<^verbatim>\<open>gabi.run\<close>, which differs from
  the output of the triage-rooted run on that message for every context and history.
\<close>

theorem chat_is_not_the_triage_run:
  "chat example_environment [''message'' \<mapsto> ''hi''] ''response'' = Some ''gabi: hi''
   \<and> (\<forall>ctx history.
        chat example_environment [''message'' \<mapsto> ''hi''] ''response''
          \<noteq> Some (final_output (triage_run example_environment ctx history ''hi'')))"
  by (simp add: chat_def example_environment_def example_gabi_run_def example_triage_run_def)

text \<open>
  Claim C5, amended: for every request whose body carries a message \<open>m\<close>, the chat
  endpoint calls \<^verbatim>\<open>gabi.run\<close> on \<open>m\<close> alone, with no Session Context and no history, and
  returns the object whose only entry is \<^verbatim>\<open>response\<close>, the final output of that run. The
  triage-rooted graph has no part in the response: replacing it by any other run leaves
  the response as it is.
\<close>

theorem chat_runs_gabi:
  "(data ''message'' = Some m \<longrightarrow>
      chat env data = [''response'' \<mapsto> final_output (gabi_run env m)])
   \<and> chat (env\<lparr>triage_run := r\<rparr>) data = chat env data"
  by (simp add: chat_def)

theorem chat_runs_gabi_witness:
  "[''message'' \<mapsto> ''hi''] ''message'' = Some ''hi''
   \<and> chat example_environment [''message'' \<mapsto> ''hi''] = [''response'' \<mapsto> ''gabi: hi'']
   \<and> chat (example_environment\<lparr>triage_run := (\<lambda>ctx history m. \<lparr>final_output = m\<rparr>)\<rparr>)
        [''message'' \<mapsto> ''hi'']
       = [''response'' \<mapsto> ''gabi: hi'']"
  using chat_runs_gabi [of "[''message'' \<mapsto> ''hi'']" "''hi''" example_environment
      "\<lambda>ctx history m. \<lparr>final_output = m\<rparr>"]
  by (simp add: example_environment_def example_gabi_run_def)

end
